theory Spec2Isabelle
  imports Main
begin

section \<open>JavaScript primitives used by \<open>wasm-audio-helper.ts\<close>\<close>

text \<open>
  The helper computes with JavaScript numbers that hold integers (frame lengths, channel
  counts, byte offsets). They are modelled as \<open>int\<close>; a double represents every integer
  of magnitude below \<open>2 ^ 53\<close> exactly, so the arithmetic of the helper is the arithmetic
  of \<open>int\<close> on that range. An optional argument is an \<open>int option\<close>, \<open>None\<close> standing
  for \<open>undefined\<close>.
\<close>

definition BYTES_PER_SAMPLE :: int where
  "BYTES_PER_SAMPLE = 4"

definition BYTES_PER_UNIT :: int where
  "BYTES_PER_UNIT = 2"

definition MAX_CHANNEL_COUNT :: int where
  "MAX_CHANNEL_COUNT = 32"

definition RENDER_QUANTUM_FRAMES :: int where
  "RENDER_QUANTUM_FRAMES = 128"

text \<open>\<open>ToInt32\<close>: reduction modulo \<open>2 ^ 32\<close> into the signed 32-bit range.\<close>

definition ToInt32 :: "int \<Rightarrow> int" where
  "ToInt32 x = (x + 2147483648) mod 4294967296 - 2147483648"

text \<open>The operator \<open>x >> k\<close>: the left operand through \<open>ToInt32\<close>, the shift count
  taken modulo 32, an arithmetic (sign-propagating) shift.\<close>

definition js_sar :: "int \<Rightarrow> int \<Rightarrow> int" where
  "js_sar x k = ToInt32 x div 2 ^ nat (k mod 32)"

text \<open>Truthiness of an optional number: \<open>undefined\<close> and \<open>0\<close> are falsy.\<close>

fun truthy :: "int option \<Rightarrow> bool" where
  "truthy None = False"
| "truthy (Some n) = (n \<noteq> 0)"

text \<open>The comparison \<open>a >= b\<close> with a possibly undefined left operand: \<open>undefined\<close>
  converts to \<open>NaN\<close>, and every comparison with \<open>NaN\<close> is false.\<close>

fun js_ge :: "int option \<Rightarrow> int \<Rightarrow> bool" where
  "js_ge None b = False"
| "js_ge (Some a) b = (b \<le> a)"

text \<open>Reading an array element \<open>xs[i]\<close>: \<open>undefined\<close> outside the array.\<close>

definition array_get :: "'a list \<Rightarrow> int \<Rightarrow> 'a option" where
  "array_get xs i = (if 0 \<le> i \<and> i < int (length xs) then Some (xs ! nat i) else None)"

section \<open>Typed-array views and the Emscripten module\<close>

text \<open>A \<open>Float32Array\<close> view is a window of its buffer: the byte offset where it starts
  and its length in 32-bit elements. The samples themselves are not modelled.\<close>

record Float32Array =
  byteOffset :: int
  view_length :: int

text \<open>\<open>subarray(begin, end)\<close>: a negative index counts from the end, both indices are
  clamped to the source, and the new view shares the source's buffer.\<close>

definition clamp_index :: "int \<Rightarrow> int \<Rightarrow> int" where
  "clamp_index n rel = (if rel < 0 then max (n + rel) 0 else min rel n)"

definition subarray :: "Float32Array \<Rightarrow> int \<Rightarrow> int \<Rightarrow> Float32Array" where
  "subarray src begin_ix end_ix =
     (let n = view_length src;
          beginIndex = clamp_index n begin_ix;
          endIndex = clamp_index n end_ix;
          newLength = max (endIndex - beginIndex) 0
      in \<lparr>byteOffset = byteOffset src + beginIndex * BYTES_PER_SAMPLE,
          view_length = newLength\<rparr>)"

text \<open>The bytes a view covers.\<close>

definition view_bytes :: "Float32Array \<Rightarrow> int set" where
  "view_bytes v = {byteOffset v ..< byteOffset v + view_length v * BYTES_PER_SAMPLE}"

text \<open>
  The module is the foreign memory owner. Its allocator is a parameter: \<open>malloc_ret\<close>
  gives the offset it answers to a request, depending on the calls made so far. Every
  call into the module is recorded in \<open>heap_calls\<close>, so that a statement can say which
  calls an operation makes.
\<close>

datatype heap_call = Malloc int | Free int

record EmscriptenModule =
  HEAPF32 :: Float32Array
  malloc_ret :: "heap_call list \<Rightarrow> int \<Rightarrow> int"
  heap_calls :: "heap_call list"

definition module_malloc :: "EmscriptenModule \<Rightarrow> int \<Rightarrow> int \<times> EmscriptenModule" where
  "module_malloc md byteSize =
     (malloc_ret md (heap_calls md) byteSize,
      md\<lparr>heap_calls := heap_calls md @ [Malloc byteSize]\<rparr>)"

definition module_free :: "EmscriptenModule \<Rightarrow> int \<Rightarrow> EmscriptenModule" where
  "module_free md ptr = md\<lparr>heap_calls := heap_calls md @ [Free ptr]\<rparr>"

section \<open>The class \<open>HeapAudioBuffer\<close>\<close>

text \<open>The private fields; \<open>p_\<close> stands for the leading underscore of the source.\<close>

record HeapAudioBuffer =
  p_channelCount :: int
  p_channelData :: "Float32Array list"
  p_dataPtr :: int
  p_isInitialized :: bool
  p_length :: int
  p_maxChannelCount :: int
  p_module :: EmscriptenModule

text \<open>
  The loop of \<open>_allocateHeap\<close>. The array starts empty and the loop writes index \<open>i\<close>
  for \<open>i = 0, 1, \<dots>\<close>, so each assignment \<open>_channelData[i] = \<dots>\<close> extends the array by
  one element.
\<close>

function allocateHeap_loop ::
  "EmscriptenModule \<Rightarrow> int \<Rightarrow> int \<Rightarrow> int \<Rightarrow> int \<Rightarrow> Float32Array list \<Rightarrow> Float32Array list"
where
  "allocateHeap_loop md dataPtr channelByteSize count i channelData =
     (if i < count then
        allocateHeap_loop md dataPtr channelByteSize count (i + 1)
          (channelData @
            [subarray (HEAPF32 md)
               (js_sar (dataPtr + i * channelByteSize) BYTES_PER_UNIT)
               (js_sar (dataPtr + i * channelByteSize + channelByteSize) BYTES_PER_UNIT)])
      else channelData)"
  by pat_completeness auto
termination
  by (relation "measure (\<lambda>(md, dataPtr, channelByteSize, count, i, channelData). nat (count - i))")
    auto

declare allocateHeap_loop.simps [simp del]

definition allocateHeap :: "HeapAudioBuffer \<Rightarrow> int \<times> HeapAudioBuffer" where
  "allocateHeap this =
     (let channelByteSize = p_length this * BYTES_PER_SAMPLE;
          dataByteSize = p_channelCount this * channelByteSize;
          (dataPtr, md) = module_malloc (p_module this) dataByteSize
      in (dataPtr,
          this\<lparr>p_module := md,
               p_channelData :=
                 allocateHeap_loop md dataPtr channelByteSize (p_channelCount this) 0 []\<rparr>))"

text \<open>The constructor. \<open>_dataPtr\<close> has no value before \<open>_allocateHeap\<close> returns and is
  not read until then; the model holds \<open>0\<close> there.\<close>

definition new_HeapAudioBuffer ::
  "EmscriptenModule \<Rightarrow> int \<Rightarrow> int \<Rightarrow> int option \<Rightarrow> HeapAudioBuffer"
where
  "new_HeapAudioBuffer wasmModule len channelCount maxChannelCount =
     (let this = \<lparr>p_channelCount = channelCount,
                  p_channelData = [],
                  p_dataPtr = 0,
                  p_isInitialized = True,
                  p_length = len,
                  p_maxChannelCount =
                    (case maxChannelCount of
                       None \<Rightarrow> channelCount
                     | Some k \<Rightarrow> if truthy (Some k) then min k MAX_CHANNEL_COUNT
                                else channelCount),
                  p_module = wasmModule\<rparr>;
          (dataPtr, this') = allocateHeap this
      in this'\<lparr>p_dataPtr := dataPtr\<rparr>)"

definition adaptChannel :: "int \<Rightarrow> HeapAudioBuffer \<Rightarrow> HeapAudioBuffer" where
  "adaptChannel newChannelCount this =
     (if newChannelCount < p_maxChannelCount this
      then this\<lparr>p_channelCount := newChannelCount\<rparr>
      else this)"

text \<open>The getters answer \<open>null\<close> (\<open>None\<close>) once the buffer is freed.\<close>

definition get_length :: "HeapAudioBuffer \<Rightarrow> int option" where
  "get_length this = (if p_isInitialized this then Some (p_length this) else None)"

definition numberOfChannels :: "HeapAudioBuffer \<Rightarrow> int option" where
  "numberOfChannels this =
     (if p_isInitialized this then Some (p_channelCount this) else None)"

definition maxChannelCount :: "HeapAudioBuffer \<Rightarrow> int option" where
  "maxChannelCount this =
     (if p_isInitialized this then Some (p_maxChannelCount this) else None)"

text \<open>\<open>getChannelData\<close> answers \<open>undefined\<close>, one view, or the whole array of views.\<close>

datatype channel_result =
  Undefined
| Channel Float32Array
| AllChannels "Float32Array list"

definition getChannelData :: "int option \<Rightarrow> HeapAudioBuffer \<Rightarrow> channel_result" where
  "getChannelData channelIndex this =
     (if truthy channelIndex \<and> js_ge channelIndex (p_channelCount this) then Undefined
      else (case channelIndex of
              None \<Rightarrow> AllChannels (p_channelData this)
            | Some i \<Rightarrow> (case array_get (p_channelData this) i of
                          None \<Rightarrow> Undefined
                        | Some v \<Rightarrow> Channel v)))"

definition getHeapAddress :: "HeapAudioBuffer \<Rightarrow> int" where
  "getHeapAddress this = p_dataPtr this"

definition getPointer :: "HeapAudioBuffer \<Rightarrow> int" where
  "getPointer this = p_dataPtr this"

definition free :: "HeapAudioBuffer \<Rightarrow> HeapAudioBuffer" where
  "free this =
     this\<lparr>p_isInitialized := False,
          p_module := module_free (p_module this) (p_dataPtr this),
          p_channelData := []\<rparr>"

section \<open>Sequences of calls and auxiliary notions\<close>

text \<open>The operations a caller can apply to a constructed buffer that change it.\<close>

datatype operation = Adapt int | Release

fun apply_operation :: "operation \<Rightarrow> HeapAudioBuffer \<Rightarrow> HeapAudioBuffer" where
  "apply_operation (Adapt n) this = adaptChannel n this"
| "apply_operation Release this = free this"

definition run :: "HeapAudioBuffer \<Rightarrow> operation list \<Rightarrow> HeapAudioBuffer" where
  "run this ops = foldl (\<lambda>s ope. apply_operation ope s) this ops"

text \<open>The range of counts the specification asks for:
  \<open>0 < activeChannelCount \<le> channelCapacity \<le> 32\<close>.\<close>

definition count_invariant :: "HeapAudioBuffer \<Rightarrow> bool" where
  "count_invariant this =
     (0 < p_channelCount this \<and> p_channelCount this \<le> p_maxChannelCount this \<and>
      p_maxChannelCount this \<le> MAX_CHANNEL_COUNT)"

text \<open>The view the loop of \<open>_allocateHeap\<close> builds at index \<open>i\<close>.\<close>

definition channel_window :: "EmscriptenModule \<Rightarrow> int \<Rightarrow> int \<Rightarrow> int \<Rightarrow> Float32Array" where
  "channel_window md dataPtr channelByteSize i =
     subarray (HEAPF32 md)
       (js_sar (dataPtr + i * channelByteSize) BYTES_PER_UNIT)
       (js_sar (dataPtr + i * channelByteSize + channelByteSize) BYTES_PER_UNIT)"

text \<open>A module for concrete runs: a heap of \<open>4194304\<close> floats (16 MiB) starting at byte
  \<open>0\<close>, no call made yet, and an allocator that answers \<open>ptr\<close>.\<close>

definition test_module :: "int \<Rightarrow> EmscriptenModule" where
  "test_module ptr =
     \<lparr>HEAPF32 = \<lparr>byteOffset = 0, view_length = 4194304\<rparr>,
      malloc_ret = (\<lambda>calls byteSize. ptr),
      heap_calls = []\<rparr>"

text \<open>The buffer of the specification's example: frame length \<open>128\<close>, two
  channels, a maximum of \<open>40\<close> channels, allocated at offset \<open>1024\<close>.\<close>

definition test_buffer :: HeapAudioBuffer where
  "test_buffer = new_HeapAudioBuffer (test_module 1024) 128 2 (Some 40)"

text \<open>A module with a heap of 3 GiB whose allocator answers the offset \<open>2 ^ 31\<close>.\<close>

definition large_module :: EmscriptenModule where
  "large_module =
     \<lparr>HEAPF32 = \<lparr>byteOffset = 0, view_length = 805306368\<rparr>,
      malloc_ret = (\<lambda>calls byteSize. 2147483648),
      heap_calls = []\<rparr>"

section \<open>What the constructor builds\<close>

lemma allocateHeap_loop_eq:
  "allocateHeap_loop md p cbs c i acc = acc @ map (channel_window md p cbs) [i..c - 1]"
proof (induction md p cbs c i acc rule: allocateHeap_loop.induct)
  case (1 md p cbs c i acc)
  show ?case
  proof (cases "i < c")
    case True
    then have "[i..c - 1] = i # [i + 1..c - 1]"
      by (simp add: upto_rec1)
    with True "1" show ?thesis
      by (simp add: channel_window_def allocateHeap_loop.simps [of md p cbs c i acc])
  next
    case False
    then show ?thesis
      by (simp add: allocateHeap_loop.simps [of md p cbs c i acc])
  qed
qed

lemma new_channelData:
  "p_channelData (new_HeapAudioBuffer m len cc mx) =
     map (channel_window m (malloc_ret m (heap_calls m) (cc * (len * 4))) (len * 4)) [0..cc - 1]"
  by (simp add: new_HeapAudioBuffer_def allocateHeap_def module_malloc_def Let_def
      allocateHeap_loop_eq BYTES_PER_SAMPLE_def channel_window_def)

lemma new_channelCount: "p_channelCount (new_HeapAudioBuffer m len cc mx) = cc"
  by (simp add: new_HeapAudioBuffer_def allocateHeap_def module_malloc_def Let_def)

lemma new_length: "p_length (new_HeapAudioBuffer m len cc mx) = len"
  by (simp add: new_HeapAudioBuffer_def allocateHeap_def module_malloc_def Let_def)

lemma new_isInitialized: "p_isInitialized (new_HeapAudioBuffer m len cc mx)"
  by (simp add: new_HeapAudioBuffer_def allocateHeap_def module_malloc_def Let_def)

lemma new_dataPtr:
  "p_dataPtr (new_HeapAudioBuffer m len cc mx) = malloc_ret m (heap_calls m) (cc * (len * 4))"
  by (simp add: new_HeapAudioBuffer_def allocateHeap_def module_malloc_def Let_def
      BYTES_PER_SAMPLE_def)

lemma new_maxChannelCount:
  "p_maxChannelCount (new_HeapAudioBuffer m len cc mx) =
     (case mx of None \<Rightarrow> cc | Some k \<Rightarrow> if k = 0 then cc else min k 32)"
  by (simp add: new_HeapAudioBuffer_def allocateHeap_def module_malloc_def Let_def
      MAX_CHANNEL_COUNT_def split: option.split)

lemma new_heap_calls:
  "heap_calls (p_module (new_HeapAudioBuffer m len cc mx)) =
     heap_calls m @ [Malloc (cc * (len * 4))]"
  by (simp add: new_HeapAudioBuffer_def allocateHeap_def module_malloc_def Let_def
      BYTES_PER_SAMPLE_def)

lemma new_channelData_length:
  "length (p_channelData (new_HeapAudioBuffer m len cc mx)) = nat cc"
  by (simp add: new_channelData)

subsection \<open>The example buffer\<close>

lemma upto_0_1: "[0..1::int] = [0, 1]"
  by (simp add: upto.simps)

lemma test_buffer_isInitialized: "p_isInitialized test_buffer"
  by (simp add: test_buffer_def new_isInitialized)

lemma test_buffer_channelData:
  "p_channelData test_buffer =
     [\<lparr>byteOffset = 1024, view_length = 128\<rparr>, \<lparr>byteOffset = 1536, view_length = 128\<rparr>]"
  by (simp add: test_buffer_def new_channelData test_module_def channel_window_def
      subarray_def js_sar_def ToInt32_def clamp_index_def BYTES_PER_UNIT_def
      BYTES_PER_SAMPLE_def upto_0_1)

lemma test_buffer_counts:
  "p_channelCount test_buffer = 2" "p_maxChannelCount test_buffer = 32"
  by (simp_all add: test_buffer_def new_channelCount new_maxChannelCount)

lemma test_buffer_dataPtr: "p_dataPtr test_buffer = 1024"
  by (simp add: test_buffer_def new_dataPtr test_module_def)

lemma test_buffer_heap_calls: "heap_calls (p_module test_buffer) = [Malloc 1024]"
  by (simp add: test_buffer_def new_heap_calls test_module_def)

lemma test_buffer_length: "p_length test_buffer = 128"
  by (simp add: test_buffer_def new_length)

lemma test_module_heap:
  "byteOffset (HEAPF32 (test_module p)) = 0" "view_length (HEAPF32 (test_module p)) = 4194304"
  by (simp_all add: test_module_def)

subsection \<open>Field-wise effect of the operations\<close>

lemma adaptChannel_fields:
  "p_isInitialized (adaptChannel n this) = p_isInitialized this"
  "p_channelData (adaptChannel n this) = p_channelData this"
  "p_module (adaptChannel n this) = p_module this"
  "p_maxChannelCount (adaptChannel n this) = p_maxChannelCount this"
  "p_length (adaptChannel n this) = p_length this"
  "p_dataPtr (adaptChannel n this) = p_dataPtr this"
  by (simp_all add: adaptChannel_def)

lemma free_fields:
  "p_isInitialized (free this) = False"
  "p_channelData (free this) = []"
  "p_module (free this) = module_free (p_module this) (p_dataPtr this)"
  "p_maxChannelCount (free this) = p_maxChannelCount this"
  "p_channelCount (free this) = p_channelCount this"
  "p_length (free this) = p_length this"
  "p_dataPtr (free this) = p_dataPtr this"
  by (simp_all add: free_def)

lemma run_Nil: "run this [] = this"
  by (simp add: run_def)

lemma run_Cons: "run this (ope # ops) = run (apply_operation ope this) ops"
  by (simp add: run_def)

lemma run_adapt_fields:
  "p_isInitialized (run this (map Adapt ns)) = p_isInitialized this \<and>
   p_channelData (run this (map Adapt ns)) = p_channelData this \<and>
   p_module (run this (map Adapt ns)) = p_module this \<and>
   p_dataPtr (run this (map Adapt ns)) = p_dataPtr this"
  by (induction ns arbitrary: this) (simp_all add: run_Nil run_Cons adaptChannel_fields)

lemma run_maxChannelCount: "p_maxChannelCount (run this ops) = p_maxChannelCount this"
proof (induction ops arbitrary: this)
  case Nil
  show ?case by (simp add: run_Nil)
next
  case (Cons ope ops)
  show ?case
    by (cases ope) (simp_all add: run_Cons Cons.IH adaptChannel_fields free_fields)
qed

section \<open>Allocation size and number of views\<close>

text \<open>
  C1 says that the constructor requests \<open>channelCapacity * frameLength * 4\<close> bytes.
  \<open>_allocateHeap\<close> multiplies by \<open>_channelCount\<close>: for frame length \<open>128\<close>, two
  channels and a maximum of \<open>40\<close> the capacity is \<open>32\<close>, the size by capacity would be
  \<open>16384\<close> bytes, and the one call into the module is \<open>_malloc(1024)\<close>.
\<close>

theorem allocation_sized_by_channelCount:
  "heap_calls (p_module test_buffer) = [Malloc 1024] \<and>
   p_maxChannelCount test_buffer * p_length test_buffer * BYTES_PER_SAMPLE = 16384 \<and>
   p_channelCount test_buffer * p_length test_buffer * BYTES_PER_SAMPLE = 1024"
  by (simp add: test_buffer_heap_calls test_buffer_counts BYTES_PER_SAMPLE_def
      test_buffer_length)

text \<open>
  C2 says that one view is built per capacity slot and that \<open>getChannelData()\<close> answers
  \<open>channelCapacity\<close> views. The loop of \<open>_allocateHeap\<close> runs to \<open>_channelCount\<close>: the
  same buffer has capacity \<open>32\<close> and two views. \<open>adaptChannel(5)\<close> is accepted, since
  \<open>5 < 32\<close>, and then channel \<open>3\<close>, below the active count, has no view.
\<close>

theorem views_built_for_channelCount:
  "p_maxChannelCount test_buffer = 32 \<and>
   length (p_channelData test_buffer) = 2 \<and>
   getChannelData None test_buffer =
     AllChannels [\<lparr>byteOffset = 1024, view_length = 128\<rparr>,
                  \<lparr>byteOffset = 1536, view_length = 128\<rparr>] \<and>
   numberOfChannels (adaptChannel 5 test_buffer) = Some 5 \<and>
   getChannelData (Some 3) (adaptChannel 5 test_buffer) = Undefined"
  by (simp add: test_buffer_counts test_buffer_channelData getChannelData_def
      numberOfChannels_def adaptChannel_def test_buffer_isInitialized array_get_def)

section \<open>Capacity resolution\<close>

text \<open>
  C4, as stated: a given \<open>maxChannelCount\<close> always yields the capacity
  \<open>min(maxChannelCount, 32)\<close>. The constructor tests the argument for truthiness, so
  a given \<open>0\<close> is treated like an absent argument: with \<open>channelCount = 2\<close> and
  \<open>maxChannelCount = 0\<close> the capacity is \<open>2\<close>, not \<open>min(0, 32) = 0\<close>.
\<close>

theorem capacity_zero_max_counterexample:
  "p_maxChannelCount (new_HeapAudioBuffer (test_module 1024) 128 2 (Some 0)) = 2 \<and>
   p_maxChannelCount (new_HeapAudioBuffer (test_module 1024) 128 2 (Some 0)) \<noteq>
     min 0 MAX_CHANNEL_COUNT"
  by (simp add: new_maxChannelCount MAX_CHANNEL_COUNT_def)

text \<open>
  C4, amended: for every construction, the capacity is \<open>min(maxChannelCount, 32)\<close> when
  \<open>maxChannelCount\<close> is given and is not \<open>0\<close>, and the requested channel count when it
  is absent or \<open>0\<close>; the active channel count is the requested channel count.
\<close>

theorem capacity_resolution:
  "p_maxChannelCount (new_HeapAudioBuffer m len cc mx) =
     (case mx of
        None \<Rightarrow> cc
      | Some k \<Rightarrow> if k = 0 then cc else min k MAX_CHANNEL_COUNT) \<and>
   p_channelCount (new_HeapAudioBuffer m len cc mx) = cc"
  by (simp add: new_maxChannelCount new_channelCount MAX_CHANNEL_COUNT_def split: option.split)

text \<open>The instances of the specification: \<open>(2, 40)\<close> gives capacity \<open>32\<close> and active
  count \<open>2\<close>; \<open>5\<close> channels and no maximum give capacity \<open>5\<close>.\<close>

theorem capacity_resolution_witness:
  "p_maxChannelCount (new_HeapAudioBuffer (test_module 1024) 128 2 (Some 40)) = 32 \<and>
   p_channelCount (new_HeapAudioBuffer (test_module 1024) 128 2 (Some 40)) = 2 \<and>
   p_maxChannelCount (new_HeapAudioBuffer (test_module 1024) 128 5 None) = 5"
  using capacity_resolution [of "test_module 1024" 128 2 "Some 40"]
    capacity_resolution [of "test_module 1024" 128 5 None]
  by (simp add: MAX_CHANNEL_COUNT_def)

section \<open>Channel adaptation\<close>

text \<open>
  C7: for every instance and every integer \<open>newCount\<close>, \<open>adaptChannel(newCount)\<close> sets
  the active channel count to exactly \<open>newCount\<close> when \<open>newCount\<close> is below the
  capacity, and otherwise changes nothing; it has no error path.
\<close>

theorem adaptChannel_count:
  "(newCount < p_maxChannelCount this \<longrightarrow>
      p_channelCount (adaptChannel newCount this) = newCount) \<and>
   (p_maxChannelCount this \<le> newCount \<longrightarrow> adaptChannel newCount this = this)"
  by (simp add: adaptChannel_def)

theorem adaptChannel_count_witness:
  "p_channelCount (adaptChannel 1 test_buffer) = 1 \<and>
   p_channelCount (adaptChannel 31 test_buffer) = 31 \<and>
   adaptChannel 32 test_buffer = test_buffer \<and>
   adaptChannel 40 test_buffer = test_buffer"
  using adaptChannel_count [of 1 test_buffer] adaptChannel_count [of 31 test_buffer]
    adaptChannel_count [of 32 test_buffer] adaptChannel_count [of 40 test_buffer]
  by (simp add: test_buffer_counts)

text \<open>
  C9: \<open>adaptChannel\<close> makes no call into the module and changes no field but the active
  channel count: frame length, capacity, base offset, the initialized flag, the views
  and the module with its record of calls are as before.
\<close>

theorem adaptChannel_frame:
  "p_length (adaptChannel newCount this) = p_length this \<and>
   p_maxChannelCount (adaptChannel newCount this) = p_maxChannelCount this \<and>
   p_dataPtr (adaptChannel newCount this) = p_dataPtr this \<and>
   p_isInitialized (adaptChannel newCount this) = p_isInitialized this \<and>
   p_channelData (adaptChannel newCount this) = p_channelData this \<and>
   p_module (adaptChannel newCount this) = p_module this \<and>
   heap_calls (p_module (adaptChannel newCount this)) = heap_calls (p_module this) \<and>
   adaptChannel newCount this =
     this\<lparr>p_channelCount := p_channelCount (adaptChannel newCount this)\<rparr>"
  by (simp add: adaptChannel_def)

section \<open>The range of the channel counts\<close>

lemma count_invariant_apply:
  "count_invariant this \<Longrightarrow> (\<forall>n. ope = Adapt n \<longrightarrow> 0 < n) \<Longrightarrow>
   count_invariant (apply_operation ope this)"
  by (cases ope) (auto simp: count_invariant_def adaptChannel_def free_def)

lemma count_invariant_run:
  "count_invariant this \<Longrightarrow> (\<forall>n. Adapt n \<in> set ops \<longrightarrow> 0 < n) \<Longrightarrow>
   count_invariant (run this ops)"
proof (induction ops arbitrary: this)
  case Nil
  then show ?case by (simp add: run_Nil)
next
  case (Cons ope ops)
  from Cons.prems have "count_invariant (apply_operation ope this)"
    by (intro count_invariant_apply) auto
  moreover from Cons.prems have "\<forall>n. Adapt n \<in> set ops \<longrightarrow> 0 < n"
    by simp
  ultimately show ?case
    by (simp add: run_Cons Cons.IH)
qed

lemma count_invariant_new:
  assumes "0 < cc" and "cc \<le> MAX_CHANNEL_COUNT" and "\<forall>k. mx = Some k \<longrightarrow> cc \<le> k"
  shows "count_invariant (new_HeapAudioBuffer m len cc mx)"
  using assms
  by (auto simp: count_invariant_def new_channelCount new_maxChannelCount
      MAX_CHANNEL_COUNT_def split: option.split)

text \<open>
  C3, as stated: \<open>0 < activeChannelCount \<le> channelCapacity \<le> 32\<close> in every reachable
  initialized state, and adaptation only lowers the active count. On the example buffer
  \<open>adaptChannel(0)\<close> gives the active count \<open>0\<close> and \<open>adaptChannel(5)\<close> raises it from
  \<open>2\<close> to \<open>5\<close>. The constructor checks nothing: \<open>5\<close> channels with a maximum of \<open>2\<close>
  give an active count above the capacity, and \<open>40\<close> channels without a maximum give
  the capacity \<open>40\<close>.
\<close>

theorem count_invariant_counterexample:
  "p_isInitialized (adaptChannel 0 test_buffer) \<and>
   \<not> count_invariant (adaptChannel 0 test_buffer) \<and>
   p_channelCount test_buffer = 2 \<and>
   p_channelCount (adaptChannel 5 test_buffer) = 5 \<and>
   \<not> count_invariant (new_HeapAudioBuffer (test_module 1024) 128 5 (Some 2)) \<and>
   \<not> count_invariant (new_HeapAudioBuffer (test_module 1024) 128 40 None)"
  by (simp add: count_invariant_def adaptChannel_def test_buffer_counts
      test_buffer_isInitialized new_channelCount new_maxChannelCount MAX_CHANNEL_COUNT_def)

text \<open>
  C3, amended: when the buffer is constructed with \<open>0 < channelCount \<le> 32\<close> and a
  maximum that is absent or at least \<open>channelCount\<close>, then after any sequence of
  \<open>adaptChannel\<close> and \<open>free\<close> calls whose adaptation requests are all positive,
  \<open>0 < activeChannelCount \<le> channelCapacity \<le> 32\<close> holds and the capacity is the one
  set at construction. In any state, \<open>adaptChannel(n)\<close> either leaves the active count
  as it is or sets it to \<open>n\<close>, which is then below the capacity; the new count may be
  larger than the old one.
\<close>

theorem count_invariant_reachable:
  assumes "0 < cc" and "cc \<le> MAX_CHANNEL_COUNT" and "\<forall>k. mx = Some k \<longrightarrow> cc \<le> k"
    and "\<forall>n. Adapt n \<in> set ops \<longrightarrow> 0 < n"
  shows "count_invariant (run (new_HeapAudioBuffer m len cc mx) ops) \<and>
         p_maxChannelCount (run (new_HeapAudioBuffer m len cc mx) ops) =
           p_maxChannelCount (new_HeapAudioBuffer m len cc mx) \<and>
         (p_channelCount (adaptChannel n this) = p_channelCount this \<or>
          p_channelCount (adaptChannel n this) = n \<and> n < p_maxChannelCount this)"
  using assms
  by (simp add: count_invariant_run count_invariant_new run_maxChannelCount adaptChannel_def)

theorem count_invariant_reachable_witness:
  "count_invariant (run test_buffer [Adapt 1, Adapt 5, Adapt 40, Release, Adapt 3]) \<and>
   p_channelCount (run test_buffer [Adapt 1, Adapt 5, Adapt 40, Release, Adapt 3]) = 3"
proof -
  have "count_invariant
          (run (new_HeapAudioBuffer (test_module 1024) 128 2 (Some 40))
             [Adapt 1, Adapt 5, Adapt 40, Release, Adapt 3])"
    using count_invariant_reachable
      [of 2 "Some 40" "[Adapt 1, Adapt 5, Adapt 40, Release, Adapt 3]" "test_module 1024" 128]
    by (simp add: MAX_CHANNEL_COUNT_def)
  moreover have
    "p_channelCount (run test_buffer [Adapt 1, Adapt 5, Adapt 40, Release, Adapt 3]) = 3"
    by (simp add: run_def adaptChannel_def free_def test_buffer_counts)
  ultimately show ?thesis
    by (simp add: test_buffer_def)
qed

section \<open>Channel access\<close>

text \<open>
  C10: the guard of \<open>getChannelData\<close> tests the index for truthiness, so index \<open>0\<close> is
  never compared with the active channel count: \<open>getChannelData(0)\<close> is the element at
  position \<open>0\<close> of the view array (\<open>undefined\<close> when the array is empty), whatever the
  active channel count is.
\<close>

theorem getChannelData_zero_unchecked:
  "getChannelData (Some 0) this =
     (case p_channelData this of [] \<Rightarrow> Undefined | v # vs \<Rightarrow> Channel v)"
  by (simp add: getChannelData_def array_get_def split: list.split)

text \<open>After the active count of the example buffer is adapted to \<open>0\<close>, index \<open>0\<close> still
  answers the first view.\<close>

theorem getChannelData_zero_unchecked_witness:
  "numberOfChannels (adaptChannel 0 test_buffer) = Some 0 \<and>
   getChannelData (Some 0) (adaptChannel 0 test_buffer) =
     Channel \<lparr>byteOffset = 1024, view_length = 128\<rparr>"
  using getChannelData_zero_unchecked [of "adaptChannel 0 test_buffer"]
  by (simp add: adaptChannel_def test_buffer_counts test_buffer_channelData numberOfChannels_def
      test_buffer_isInitialized)

text \<open>
  C6, as stated: for every index at or above the active channel count the indexed form
  answers "no value". After \<open>adaptChannel(0)\<close> on the example buffer the active count is
  \<open>0\<close>, and index \<open>0\<close> answers the first view.
\<close>

theorem index_zero_unchecked_counterexample:
  "p_isInitialized (adaptChannel 0 test_buffer) \<and>
   p_channelCount (adaptChannel 0 test_buffer) = 0 \<and>
   getChannelData (Some 0) (adaptChannel 0 test_buffer) =
     Channel \<lparr>byteOffset = 1024, view_length = 128\<rparr> \<and>
   getChannelData (Some 0) (adaptChannel 0 test_buffer) \<noteq> Undefined"
  by (simp add: adaptChannel_def test_buffer_counts test_buffer_isInitialized
      getChannelData_def array_get_def test_buffer_channelData)

text \<open>
  C6, amended: for every instance and every integer index, the indexed form answers the
  view at that index when \<open>0 \<le> index < activeChannelCount\<close> and a view was built for
  the index; it answers "no value" when \<open>index \<ge> activeChannelCount\<close> and the index is
  not \<open>0\<close>, also when the index is below the capacity.
\<close>

theorem getChannelData_indexed:
  "(0 \<le> i \<and> i < p_channelCount this \<and> i < int (length (p_channelData this)) \<longrightarrow>
      getChannelData (Some i) this = Channel (p_channelData this ! nat i)) \<and>
   (p_channelCount this \<le> i \<and> i \<noteq> 0 \<longrightarrow> getChannelData (Some i) this = Undefined)"
  by (simp add: getChannelData_def array_get_def)

theorem getChannelData_indexed_witness:
  "getChannelData (Some 1) test_buffer = Channel \<lparr>byteOffset = 1536, view_length = 128\<rparr> \<and>
   getChannelData (Some 2) test_buffer = Undefined \<and>
   getChannelData (Some 1) (adaptChannel 1 test_buffer) = Undefined"
  using getChannelData_indexed [of 1 test_buffer] getChannelData_indexed [of 2 test_buffer]
    getChannelData_indexed [of 1 "adaptChannel 1 test_buffer"]
  by (simp add: test_buffer_counts test_buffer_channelData adaptChannel_def)

section \<open>Release\<close>

text \<open>
  C5, as stated: after \<open>free()\<close> every accessor answers "no value", among them the two
  base-address accessors, and nothing touches the freed offset again. \<open>getHeapAddress\<close>
  and \<open>getPointer\<close> have no test of \<open>_isInitialized\<close>: after the example buffer is
  freed they still answer \<open>1024\<close>, the offset handed to \<open>_free\<close>. A second \<open>free()\<close>
  hands the same offset to \<open>_free\<close> again, and \<open>adaptChannel\<close> still assigns the
  active count.
\<close>

theorem base_address_after_free_counterexample:
  "\<not> p_isInitialized (free test_buffer) \<and>
   heap_calls (p_module (free test_buffer)) = [Malloc 1024, Free 1024] \<and>
   getPointer (free test_buffer) = 1024 \<and>
   getHeapAddress (free test_buffer) = 1024 \<and>
   heap_calls (p_module (free (free test_buffer))) = [Malloc 1024, Free 1024, Free 1024] \<and>
   p_channelCount (free test_buffer) = 2 \<and>
   p_channelCount (adaptChannel 1 (free test_buffer)) = 1"
  by (simp add: free_fields module_free_def getPointer_def getHeapAddress_def
      test_buffer_dataPtr test_buffer_heap_calls test_buffer_counts adaptChannel_def)

text \<open>
  C5, amended: after \<open>free()\<close>, and after any further \<open>adaptChannel\<close> calls, the
  accessors \<open>length\<close>, \<open>numberOfChannels\<close> and \<open>maxChannelCount\<close> answer \<open>null\<close>, the
  indexed \<open>getChannelData\<close> answers \<open>undefined\<close> for every index, the form without
  argument answers the empty array, and the only call \<open>free()\<close> and the adaptations
  have made into the module is the one \<open>_free\<close> of the base offset.
\<close>

theorem released_queries:
  "get_length (run (free this) (map Adapt ns)) = None \<and>
   numberOfChannels (run (free this) (map Adapt ns)) = None \<and>
   maxChannelCount (run (free this) (map Adapt ns)) = None \<and>
   getChannelData (Some i) (run (free this) (map Adapt ns)) = Undefined \<and>
   getChannelData None (run (free this) (map Adapt ns)) = AllChannels [] \<and>
   heap_calls (p_module (run (free this) (map Adapt ns))) =
     heap_calls (p_module this) @ [Free (p_dataPtr this)]"
  by (simp add: get_length_def numberOfChannels_def maxChannelCount_def getChannelData_def
      array_get_def run_adapt_fields free_fields module_free_def)

section \<open>Layout of the channel views\<close>

lemma ToInt32_id: "0 \<le> x \<Longrightarrow> x < 2147483648 \<Longrightarrow> ToInt32 x = x"
  by (simp add: ToInt32_def)

lemma js_sar_two: "0 \<le> q \<Longrightarrow> 4 * q < 2147483648 \<Longrightarrow> js_sar (4 * q) BYTES_PER_UNIT = q"
  by (simp add: js_sar_def BYTES_PER_UNIT_def ToInt32_id)

lemma subarray_inside:
  assumes "0 \<le> b" and "b \<le> e" and "e \<le> view_length src"
  shows "subarray src b e =
           \<lparr>byteOffset = byteOffset src + b * 4, view_length = e - b\<rparr>"
  using assms by (simp add: subarray_def clamp_index_def Let_def BYTES_PER_SAMPLE_def)

lemma channel_window_exact:
  assumes heap0: "byteOffset (HEAPF32 m) = 0"
    and p: "0 \<le> p" "p mod 4 = 0"
    and len: "0 \<le> len" and i: "0 \<le> i"
    and fits: "p + (i + 1) * (len * 4) \<le> 4 * view_length (HEAPF32 m)"
    and small: "p + (i + 1) * (len * 4) < 2147483648"
  shows "channel_window m p (len * 4) i = \<lparr>byteOffset = p + i * (len * 4), view_length = len\<rparr>"
proof -
  obtain q where q: "p = 4 * q"
    using p(2) by (metis mod_eq_0_iff_dvd dvdE)
  define a where "a = i * len"
  have a: "0 \<le> a"
    using i len by (simp add: a_def)
  have q0: "0 \<le> q"
    using p(1) q by simp
  have start: "p + i * (len * 4) = 4 * (q + a)"
    by (simp add: q a_def algebra_simps)
  have stop': "4 * (q + a) + len * 4 = 4 * (q + a + len)"
    by simp
  have total: "p + (i + 1) * (len * 4) = 4 * (q + a + len)"
    by (simp add: q a_def algebra_simps)
  have s1: "js_sar (4 * (q + a)) BYTES_PER_UNIT = q + a"
    using q0 a len small total by (intro js_sar_two) simp_all
  have s2: "js_sar (4 * (q + a + len)) BYTES_PER_UNIT = q + a + len"
    using q0 a len small total by (intro js_sar_two) simp_all
  have sub: "subarray (HEAPF32 m) (q + a) (q + a + len) =
          \<lparr>byteOffset = byteOffset (HEAPF32 m) + (q + a) * 4, view_length = q + a + len - (q + a)\<rparr>"
    using q0 a len fits total by (intro subarray_inside) simp_all
  have "channel_window m p (len * 4) i = subarray (HEAPF32 m) (q + a) (q + a + len)"
    by (simp only: channel_window_def start stop' s1 s2)
  also have "\<dots> = \<lparr>byteOffset = 4 * (q + a), view_length = len\<rparr>"
    by (simp add: sub heap0)
  finally show ?thesis
    by (simp only: start)
qed

lemma new_channel_nth:
  assumes "0 \<le> i" and "i < cc"
  shows "p_channelData (new_HeapAudioBuffer m len cc mx) ! nat i =
           channel_window m (p_dataPtr (new_HeapAudioBuffer m len cc mx)) (len * 4) i"
proof -
  have "[0..cc - 1] ! nat i = 0 + int (nat i)"
    using assms by (intro nth_upto) simp
  moreover have "nat i < length [0..cc - 1]"
    using assms by simp
  ultimately show ?thesis
    using assms by (simp add: new_channelData new_dataPtr)
qed

lemma new_channel_exact:
  assumes heap0: "byteOffset (HEAPF32 m) = 0"
    and ptr: "0 \<le> p_dataPtr (new_HeapAudioBuffer m len cc mx)"
       "p_dataPtr (new_HeapAudioBuffer m len cc mx) mod 4 = 0"
    and len: "0 \<le> len" and i: "0 \<le> i" "i < cc"
    and fits: "p_dataPtr (new_HeapAudioBuffer m len cc mx) + cc * (len * 4)
                 \<le> 4 * view_length (HEAPF32 m)"
    and small: "p_dataPtr (new_HeapAudioBuffer m len cc mx) + cc * (len * 4) < 2147483648"
  shows "p_channelData (new_HeapAudioBuffer m len cc mx) ! nat i =
           \<lparr>byteOffset = p_dataPtr (new_HeapAudioBuffer m len cc mx) + i * (len * 4),
            view_length = len\<rparr>"
proof -
  let ?p = "p_dataPtr (new_HeapAudioBuffer m len cc mx)"
  have le: "(i + 1) * (len * 4) \<le> cc * (len * 4)"
    using i len by (intro mult_right_mono) simp_all
  have fits': "?p + (i + 1) * (len * 4) \<le> 4 * view_length (HEAPF32 m)"
    using fits le by linarith
  have small': "?p + (i + 1) * (len * 4) < 2147483648"
    using small le by linarith
  show ?thesis
    unfolding new_channel_nth [OF i]
    by (rule channel_window_exact [OF heap0 ptr len i(1) fits' small'])
qed

lemma windows_disjoint:
  assumes "0 \<le> (len::int)" and "i < j"
  shows "{p + i * (len * 4) ..< p + i * (len * 4) + len * 4} \<inter>
         {p + j * (len * 4) ..< p + j * (len * 4) + len * 4} = {}"
proof -
  have "(i + 1) * (len * 4) \<le> j * (len * 4)"
    using assms by (intro mult_right_mono) simp_all
  then have "p + i * (len * 4) + len * 4 \<le> p + j * (len * 4)"
    by (simp add: algebra_simps)
  then show ?thesis
    by auto
qed

text \<open>An offset at or above \<open>2 ^ 31\<close> becomes negative under \<open>>>\<close>, and \<open>subarray\<close>
  counts a negative index from the end of the heap: in a heap of 3 GiB the views of a
  buffer allocated at \<open>2 ^ 31\<close> start at \<open>2 ^ 30\<close>.\<close>

lemma high_offset_example:
  "p_dataPtr (new_HeapAudioBuffer large_module 128 2 None) = 2147483648 \<and>
   p_channelData (new_HeapAudioBuffer large_module 128 2 None) =
     [\<lparr>byteOffset = 1073741824, view_length = 128\<rparr>,
      \<lparr>byteOffset = 1073742336, view_length = 128\<rparr>]"
  by (simp add: new_dataPtr new_channelData large_module_def channel_window_def
      subarray_def js_sar_def ToInt32_def clamp_index_def BYTES_PER_UNIT_def
      BYTES_PER_SAMPLE_def upto_0_1)

text \<open>
  C8, as stated: for every constructed instance the view at index \<open>i\<close> covers exactly
  the bytes from \<open>baseOffset + i * frameLength * 4\<close> to
  \<open>baseOffset + (i + 1) * frameLength * 4\<close>. The views are cut at element indices
  \<open>byteOffset >> 2\<close>, which drops the two low bits of the offset: when the allocator
  answers the offset \<open>2\<close>, the first view of a buffer of frame length \<open>128\<close> covers the
  bytes \<open>0\<close> to \<open>512\<close>, not \<open>2\<close> to \<open>514\<close>.
\<close>

theorem misaligned_base_counterexample:
  "p_dataPtr (new_HeapAudioBuffer (test_module 2) 128 2 None) = 2 \<and>
   p_channelData (new_HeapAudioBuffer (test_module 2) 128 2 None) =
     [\<lparr>byteOffset = 0, view_length = 128\<rparr>, \<lparr>byteOffset = 512, view_length = 128\<rparr>] \<and>
   view_bytes (p_channelData (new_HeapAudioBuffer (test_module 2) 128 2 None) ! 0) = {0..<512} \<and>
   view_bytes (p_channelData (new_HeapAudioBuffer (test_module 2) 128 2 None) ! 0) \<noteq>
     {2 + 0 * 128 * 4 ..< 2 + (0 + 1) * 128 * 4}"
proof -
  have data: "p_channelData (new_HeapAudioBuffer (test_module 2) 128 2 None) =
     [\<lparr>byteOffset = 0, view_length = 128\<rparr>, \<lparr>byteOffset = 512, view_length = 128\<rparr>]"
    by (simp add: new_channelData test_module_def channel_window_def
      subarray_def js_sar_def ToInt32_def clamp_index_def BYTES_PER_UNIT_def
      BYTES_PER_SAMPLE_def upto_0_1)
  have "(0::int) \<in> {0..<512}" and "(0::int) \<notin> {2..<514}"
    by simp_all
  then have "{0..<512} \<noteq> {2..<(514::int)}"
    by blast
  moreover have "p_dataPtr (new_HeapAudioBuffer (test_module 2) 128 2 None) = 2"
    by (simp add: new_dataPtr test_module_def)
  ultimately show ?thesis
    by (simp add: data view_bytes_def BYTES_PER_SAMPLE_def)
qed

text \<open>
  C8, amended: when the module's float view starts at byte \<open>0\<close> of its memory, the
  frame length is not negative, and the allocator answers a base offset that is a
  non-negative multiple of \<open>4\<close> with the \<open>channelCount * frameLength * 4\<close> bytes after
  it inside the heap and below \<open>2 ^ 31\<close>, then for every index \<open>i\<close> of a view built by
  the constructor (there are \<open>channelCount\<close> of them, \<open>0 \<le> i < channelCount\<close>) the view has \<open>frameLength\<close> elements and
  covers exactly the bytes from \<open>baseOffset + i * frameLength * 4\<close> to
  \<open>baseOffset + (i + 1) * frameLength * 4\<close>, which lie inside the allocation, and the
  views at two different indices are disjoint.
\<close>

theorem channel_views_layout:
  assumes "byteOffset (HEAPF32 m) = 0"
    and "0 \<le> p_dataPtr (new_HeapAudioBuffer m len cc mx)"
    and "p_dataPtr (new_HeapAudioBuffer m len cc mx) mod 4 = 0"
    and "p_dataPtr (new_HeapAudioBuffer m len cc mx) + cc * (len * 4)
           \<le> 4 * view_length (HEAPF32 m)"
    and "p_dataPtr (new_HeapAudioBuffer m len cc mx) + cc * (len * 4) < 2147483648"
    and "0 \<le> len" and "0 \<le> i" and "i < cc" and "0 \<le> j" and "j < cc"
  shows "length (p_channelData (new_HeapAudioBuffer m len cc mx)) = nat cc \<and>
         view_length (p_channelData (new_HeapAudioBuffer m len cc mx) ! nat i) = len \<and>
         view_bytes (p_channelData (new_HeapAudioBuffer m len cc mx) ! nat i) =
           {p_dataPtr (new_HeapAudioBuffer m len cc mx) + i * len * 4 ..<
            p_dataPtr (new_HeapAudioBuffer m len cc mx) + (i + 1) * len * 4} \<and>
         view_bytes (p_channelData (new_HeapAudioBuffer m len cc mx) ! nat i) \<subseteq>
           {p_dataPtr (new_HeapAudioBuffer m len cc mx) ..<
            p_dataPtr (new_HeapAudioBuffer m len cc mx) + cc * len * 4} \<and>
         (i \<noteq> j \<longrightarrow>
            view_bytes (p_channelData (new_HeapAudioBuffer m len cc mx) ! nat i) \<inter>
            view_bytes (p_channelData (new_HeapAudioBuffer m len cc mx) ! nat j) = {})"
proof -
  let ?b = "new_HeapAudioBuffer m len cc mx"
  let ?p = "p_dataPtr ?b"
  have vi: "p_channelData ?b ! nat i = \<lparr>byteOffset = ?p + i * (len * 4), view_length = len\<rparr>"
    using assms by (intro new_channel_exact) simp_all
  have vj: "p_channelData ?b ! nat j = \<lparr>byteOffset = ?p + j * (len * 4), view_length = len\<rparr>"
    using assms by (intro new_channel_exact) simp_all
  have bi: "view_bytes (p_channelData ?b ! nat i) =
              {?p + i * (len * 4) ..< ?p + i * (len * 4) + len * 4}"
    by (simp add: vi view_bytes_def BYTES_PER_SAMPLE_def)
  have bj: "view_bytes (p_channelData ?b ! nat j) =
              {?p + j * (len * 4) ..< ?p + j * (len * 4) + len * 4}"
    by (simp add: vj view_bytes_def BYTES_PER_SAMPLE_def)
  have c1: "view_length (p_channelData ?b ! nat i) = len"
    by (simp add: vi)
  have c2: "view_bytes (p_channelData ?b ! nat i) = {?p + i * len * 4 ..< ?p + (i + 1) * len * 4}"
    by (simp add: bi algebra_simps)
  have lo: "0 \<le> i * (len * 4)"
    using assms by simp
  have "(i + 1) * (len * 4) \<le> cc * (len * 4)"
    using assms by (intro mult_right_mono) simp_all
  then have hi: "i * (len * 4) + len * 4 \<le> cc * len * 4"
    by (simp add: algebra_simps)
  have c3: "view_bytes (p_channelData ?b ! nat i) \<subseteq> {?p ..< ?p + cc * len * 4}"
    unfolding bi using lo hi by auto
  have c4: "view_bytes (p_channelData ?b ! nat i) \<inter> view_bytes (p_channelData ?b ! nat j) = {}"
    if "i \<noteq> j"
  proof (cases "i < j")
    case True
    then show ?thesis
      unfolding bi bj using assms by (intro windows_disjoint) simp_all
  next
    case False
    with that have "j < i" by simp
    then have "view_bytes (p_channelData ?b ! nat j) \<inter> view_bytes (p_channelData ?b ! nat i) = {}"
      unfolding bi bj using assms by (intro windows_disjoint) simp_all
    then show ?thesis by blast
  qed
  have c0: "length (p_channelData ?b) = nat cc"
    by (rule new_channelData_length)
  show ?thesis
    using c0 c1 c2 c3 c4 by simp
qed

theorem channel_views_layout_witness:
  "length (p_channelData test_buffer) = 2 \<and>
   view_length (p_channelData test_buffer ! 0) = 128 \<and>
   view_bytes (p_channelData test_buffer ! 0) = {1024 ..< 1536} \<and>
   view_bytes (p_channelData test_buffer ! 0) \<subseteq> {1024 ..< 2048} \<and>
   view_bytes (p_channelData test_buffer ! 0) \<inter> view_bytes (p_channelData test_buffer ! 1) = {}"
  using channel_views_layout [of "test_module 1024" 128 2 "Some 40" 0 1, folded test_buffer_def]
  by (simp add: test_buffer_dataPtr test_module_heap) auto

end
